theory Spec2Isabelle
  imports Complex_Main "HOL-Library.Sublist"
begin

section \<open>JavaScript values used by the library\<close>

text \<open>
  A JavaScript string is modelled as a \<^typ>\<open>string\<close>; a character stands for the code
  unit of the same number (U+0000 to U+00FF). A JavaScript number is one of the three
  special values or a finite value, which is kept as an exact rational: rounding to
  binary64 is not modelled, and the negative zero is the zero. A \<open>Record\<close> object is
  modelled by its own properties (a map, or the list of its entries in the order
  \<open>Object.entries\<close> enumerates them); keys that name members of \<open>Object.prototype\<close> are
  outside the model.
\<close>

datatype number = Finite rat | NaN | PosInfinity | NegInfinity

datatype error = RangeError | TypeError | ProjectionError

type_synonym point = "number \<times> number"

subsection \<open>Strings: \<open>trim\<close>, \<open>split\<close>, \<open>join\<close>, \<open>startsWith\<close>\<close>

definition isWhiteSpace :: "char \<Rightarrow> bool" where
  \<comment> \<open>WhiteSpace and LineTerminator of ECMAScript below U+0100: TAB, LF, VT, FF, CR, SP, NBSP.\<close>
  "isWhiteSpace c = (c \<in> set [CHR 0x09, CHR 0x0A, CHR 0x0B, CHR 0x0C, CHR 0x0D, CHR 0x20, CHR 0xA0])"

definition trim :: "string \<Rightarrow> string" where
  "trim s = rev (dropWhile isWhiteSpace (rev (dropWhile isWhiteSpace s)))"

fun startsWith :: "string \<Rightarrow> string \<Rightarrow> bool" where
  "startsWith s [] = True"
| "startsWith [] (p # ps) = False"
| "startsWith (c # cs) (p # ps) = (c = p \<and> startsWith cs ps)"

fun splitOn :: "char \<Rightarrow> string \<Rightarrow> string list" where
  \<comment> \<open>\<open>s.split(sep)\<close> for a separator of one character: never the empty list.\<close>
  "splitOn sep [] = [[]]"
| "splitOn sep (c # cs) =
     (if c = sep then [] # splitOn sep cs
      else (case splitOn sep cs of [] \<Rightarrow> [[c]] | r # rs \<Rightarrow> (c # r) # rs))"

fun joinWith :: "string \<Rightarrow> string list \<Rightarrow> string" where
  \<comment> \<open>\<open>xs.join(sep)\<close>\<close>
  "joinWith sep [] = []"
| "joinWith sep [x] = x"
| "joinWith sep (x # y # ys) = x @ sep @ joinWith sep (y # ys)"


subsection \<open>Numbers: \<open>toFixed\<close> and \<open>parseFloat\<close>\<close>


definition digitChar :: "nat \<Rightarrow> char" where
  "digitChar n = char_of (48 + n)"


fun digitsOf :: "nat \<Rightarrow> string" where
  \<comment> \<open>the decimal digits of an integer, \<open>''0''\<close> for zero\<close>
  "digitsOf n = (if n < 10 then [digitChar n] else digitsOf (n div 10) @ [digitChar (n mod 10)])"

declare digitsOf.simps [simp del]


definition stripTrailingZeros :: "string \<Rightarrow> string" where
  "stripTrailingZeros ds = rev (dropWhile (\<lambda>c. c = CHR ''0'') (rev ds))"

definition exponentialString :: "nat \<Rightarrow> string" where
  \<comment> \<open>\<open>Number::toString\<close> for an integer from \<open>10^21\<close> on: the digits \<open>s\<close> without
      trailing zeros, a point after the first when there are several, and the exponent
      \<open>n - 1\<close> for \<open>n\<close> digits before the point. The digits are those of the exact value.\<close>
  "exponentialString n =
     (let ds = digitsOf n; s = stripTrailingZeros ds
      in (if length s \<le> 1 then s else hd s # CHR ''.'' # tl s)
         @ ''e+'' @ digitsOf (length ds - 1))"

definition fixedString :: "rat \<Rightarrow> nat \<Rightarrow> string" where
  \<comment> \<open>Steps 10 and 11 of \<open>Number.prototype.toFixed\<close> for \<open>0 \<le> x\<close>: below \<open>10^21\<close> the
      integer \<open>n\<close> nearest to \<open>x * 10^f\<close> (the larger of two) is written with a point before
      its last \<open>f\<close> digits, padded with zeros on the left to \<open>f + 1\<close> digits.\<close>
  "fixedString x f =
     (if 10 ^ 21 \<le> x then exponentialString (nat \<lfloor>x\<rfloor>)
      else
        (let n = nat \<lfloor>x * 10 ^ f + 1 / 2\<rfloor>;
             m = digitsOf n
         in if f = 0 then m
            else
              (let m' = (if length m \<le> f then replicate (f + 1 - length m) CHR ''0'' @ m else m);
                   k = length m'
               in take (k - f) m' @ ''.'' @ drop (k - f) m')))"

definition toFixed :: "number \<Rightarrow> int \<Rightarrow> error + string" where
  \<comment> \<open>\<open>x.toFixed(fractionDigits)\<close> for an integral \<open>fractionDigits\<close>: a RangeError outside
      0..100, the name of a value that is not finite, and the sign before the digits of a
      negative value.\<close>
  "toFixed x fractionDigits =
     (if fractionDigits < 0 \<or> 100 < fractionDigits then Inl RangeError
      else
        (case x of
           NaN \<Rightarrow> Inr ''NaN''
         | PosInfinity \<Rightarrow> Inr ''Infinity''
         | NegInfinity \<Rightarrow> Inr ''-Infinity''
         | Finite q \<Rightarrow>
             Inr ((if q < 0 then ''-'' else [])
                  @ fixedString (if q < 0 then - q else q) (nat fractionDigits))))"






section \<open>Model-builder constants\<close>








definition PIPE_ROUGHNESS_DEFAULT :: "(string \<times> number) list" where
  "PIPE_ROUGHNESS_DEFAULT =
     [(''Hazen-Williams'', Finite 100),
      (''Darcy-Weisbach'', Finite (1 / 100)),
      (''Chezy-Manning'', Finite (13 / 1000))]"

definition getDefaultPipeRoughness :: "string \<Rightarrow> number" where
  "getDefaultPipeRoughness formula =
     (case map_of PIPE_ROUGHNESS_DEFAULT formula of Some r \<Rightarrow> r | None \<Rightarrow> Finite 100)"

datatype DefaultValue = NumberValue number | StringValue string

record EpanetElementDefinition =
  key :: string
  name :: string
  geometryTypes :: "string list"
  requiredAttributes :: "string list"
  optionalAttributes :: "string list"
  defaultValues :: "(string \<times> DefaultValue) list"

definition EPANET_ELEMENTS :: "EpanetElementDefinition list" where
  "EPANET_ELEMENTS =
     [\<lparr>key = ''pipes'', name = ''Pipes'',
       geometryTypes = [''LineString'', ''MultiLineString''],
       requiredAttributes = [''Id'', ''Diameter'', ''Roughness''],
       optionalAttributes = [''MinorLoss'', ''Status'', ''Comment''],
       defaultValues =
         [(''Diameter'', NumberValue (Finite 150)),
          (''Roughness'', NumberValue (Finite 100)),
          (''MinorLoss'', NumberValue (Finite 0)),
          (''Status'', StringValue ''Open'')]\<rparr>,
      \<lparr>key = ''nodes'', name = ''Nodes'',
       geometryTypes = [''Point'', ''MultiPoint''],
       requiredAttributes = [''Id''],
       optionalAttributes = [''Comment''],
       defaultValues = []\<rparr>,
      \<lparr>key = ''valves'', name = ''Valves'',
       geometryTypes = [''Point'', ''MultiPoint''],
       requiredAttributes = [''Id'', ''Diameter'', ''Type'', ''Setting''],
       optionalAttributes = [''MinorLoss'', ''Comment''],
       defaultValues =
         [(''Diameter'', NumberValue (Finite 150)),
          (''Type'', StringValue ''PRV''),
          (''Setting'', NumberValue (Finite 0)),
          (''MinorLoss'', NumberValue (Finite 0))]\<rparr>,
      \<lparr>key = ''pumps'', name = ''Pumps'',
       geometryTypes = [''Point'', ''MultiPoint''],
       requiredAttributes = [''Id''],
       optionalAttributes = [''Parameters'', ''Comment''],
       defaultValues = [(''Parameters'', StringValue ''POWER 5'')]\<rparr>,
      \<lparr>key = ''tanks'', name = ''Tanks'',
       geometryTypes = [''Point'', ''MultiPoint''],
       requiredAttributes = [''Id'', ''InitLevel'', ''MinLevel'', ''MaxLevel'', ''Diameter''],
       optionalAttributes = [''MinVolume'', ''Comment''],
       defaultValues =
         [(''InitLevel'', NumberValue (Finite 5)),
          (''MinLevel'', NumberValue (Finite 0)),
          (''MaxLevel'', NumberValue (Finite 10)),
          (''Diameter'', NumberValue (Finite 50)),
          (''MinVolume'', NumberValue (Finite 0))]\<rparr>,
      \<lparr>key = ''reservoirs'', name = ''Reservoirs'',
       geometryTypes = [''Point'', ''MultiPoint''],
       requiredAttributes = [''Id'', ''Head''],
       optionalAttributes = [''Comment''],
       defaultValues = [(''Head'', NumberValue (Finite 0))]\<rparr>]"

definition isValidGeometryForElement :: "string \<Rightarrow> string \<Rightarrow> bool" where
  "isValidGeometryForElement geometryType elementType =
     (case find (\<lambda>e. key e = elementType) EPANET_ELEMENTS of
        None \<Rightarrow> False
      | Some element \<Rightarrow> geometryType \<in> set (geometryTypes element))"

section \<open>Network utilities\<close>

record NetworkData =
  coordinates :: "(string \<times> point) list"
  vertices :: "(string \<times> point list) list"
  inp :: string
  name :: string


fun traverse :: "('a \<Rightarrow> error + 'b) \<Rightarrow> 'a list \<Rightarrow> error + 'b list" where
  \<comment> \<open>a loop whose body may throw: the first exception ends it\<close>
  "traverse f [] = Inr []"
| "traverse f (x # xs) =
     (case f x of
        Inl e \<Rightarrow> Inl e
      | Inr y \<Rightarrow> (case traverse f xs of Inl e \<Rightarrow> Inl e | Inr ys \<Rightarrow> Inr (y # ys)))"

lemma traverse_cong [fundef_cong]:
  "xs = ys \<Longrightarrow> (\<And>x. x \<in> set ys \<Longrightarrow> f x = g x) \<Longrightarrow> traverse f xs = traverse g ys"
  by (induction ys arbitrary: xs) (auto split: sum.splits)

subsection \<open>\<open>extractGeometryData\<close>\<close>





subsection \<open>\<open>updateINPWithReprojectedData\<close>\<close>

type_synonym updateState = "string option \<times> bool \<times> bool \<times> string list"

definition updateLine :: "updateState \<Rightarrow> string \<Rightarrow> updateState" where
  \<comment> \<open>the body of the first loop; the state is \<open>section\<close>, \<open>insideCoordinates\<close>,
      \<open>insideVertices\<close>, \<open>updatedLines\<close>\<close>
  "updateLine st line =
     (case st of (section, insideCoordinates, insideVertices, updatedLines) \<Rightarrow>
        (let trimmed = trim line in
         if trimmed = ''[END]'' then st
         else if startsWith trimmed ''['' then
           (Some trimmed, trimmed = ''[COORDINATES]'', trimmed = ''[VERTICES]'', updatedLines @ [line])
         else if insideCoordinates \<or> insideVertices then st
         else (section, insideCoordinates, insideVertices, updatedLines @ [line])))"

definition formatEntry :: "int \<Rightarrow> string \<Rightarrow> point \<Rightarrow> error + string" where
  \<comment> \<open>the template \<open>`${id} ${x.toFixed(decimalPrecision)} ${y.toFixed(decimalPrecision)}`\<close>\<close>
  "formatEntry decimalPrecision ident p =
     (case toFixed (fst p) decimalPrecision of
        Inl e \<Rightarrow> Inl e
      | Inr xs \<Rightarrow>
          (case toFixed (snd p) decimalPrecision of
             Inl e \<Rightarrow> Inl e
           | Inr ys \<Rightarrow> Inr (ident @ '' '' @ xs @ '' '' @ ys)))"

definition coordinateLines :: "int \<Rightarrow> (string \<times> point) list \<Rightarrow> error + string list" where
  "coordinateLines decimalPrecision entries =
     (if entries = [] then Inr []
      else
        (case traverse (\<lambda>(ident, p). formatEntry decimalPrecision ident p) entries of
           Inl e \<Rightarrow> Inl e
         | Inr ls \<Rightarrow> Inr (''\<newline>[COORDINATES]'' # ls)))"

definition vertexLines :: "int \<Rightarrow> (string \<times> point list) list \<Rightarrow> error + string list" where
  "vertexLines decimalPrecision entries =
     (if entries = [] then Inr []
      else
        (case traverse (\<lambda>(linkId, points). traverse (formatEntry decimalPrecision linkId) points)
                entries of
           Inl e \<Rightarrow> Inl e
         | Inr lss \<Rightarrow> Inr (''\<newline>[VERTICES]'' # concat lss)))"

definition updateINPWithReprojectedData :: "string \<Rightarrow> NetworkData \<Rightarrow> int option \<Rightarrow> error + string" where
  \<comment> \<open>\<open>decimalPrecision\<close> is \<open>None\<close> when the argument is not supplied\<close>
  "updateINPWithReprojectedData inpContent networkData decimalPrecision =
     (let d = (case decimalPrecision of None \<Rightarrow> 4 | Some given \<Rightarrow> given);
          updatedLines =
            snd (snd (snd (foldl updateLine (None, False, False, [])
                            (splitOn CHR ''\<newline>'' inpContent))))
      in case coordinateLines d (coordinates networkData) of
           Inl e \<Rightarrow> Inl e
         | Inr cs \<Rightarrow>
             (case vertexLines d (vertices networkData) of
                Inl e \<Rightarrow> Inl e
              | Inr vs \<Rightarrow>
                  Inr (joinWith ''\<newline>'' (updatedLines @ cs @ vs @ [''\<newline>[END]'']))))"

subsection \<open>\<open>convertCoordinates\<close>\<close>

text \<open>
  The transform of the projection library is a parameter: \<open>proj4 source target p\<close> is the
  transformed point, or the exception the library throws.
\<close>

type_synonym transform = "string \<Rightarrow> string \<Rightarrow> point \<Rightarrow> error + point"


subsection \<open>\<open>convertGeometry\<close> and \<open>convertGeoJsonToWGS84Generic\<close>\<close>

text \<open>
  A geometry carries its other members (\<open>bbox\<close> and the like) in \<open>'m\<close>; a position is the
  pair the source reads from it (\<open>const [x, y] = ...\<close>). \<open>OtherGeometry\<close> is an object whose
  \<open>type\<close> is none of the seven, \<open>NoGeometry\<close> is \<open>null\<close>.
\<close>

datatype 'm Geometry =
    Point 'm point
  | LineString 'm "point list"
  | Polygon 'm "point list list"
  | MultiPoint 'm "point list"
  | MultiLineString 'm "point list list"
  | MultiPolygon 'm "point list list list"
  | GeometryCollection 'm "'m Geometry list"
  | OtherGeometry string 'm
  | NoGeometry

fun convertGeometry :: "transform \<Rightarrow> 'm Geometry \<Rightarrow> string \<Rightarrow> error + 'm Geometry" where
  "convertGeometry proj4 NoGeometry sourceProjection = Inr NoGeometry"
| "convertGeometry proj4 (Point m p) sourceProjection =
     (case proj4 sourceProjection ''EPSG:4326'' p of
        Inl e \<Rightarrow> Inl e
      | Inr q \<Rightarrow> Inr (Point m q))"
| "convertGeometry proj4 (LineString m ps) sourceProjection =
     (case traverse (proj4 sourceProjection ''EPSG:4326'') ps of
        Inl e \<Rightarrow> Inl e
      | Inr convertedCoordinates \<Rightarrow> Inr (LineString m convertedCoordinates))"
| "convertGeometry proj4 (Polygon m rings) sourceProjection =
     (case traverse (traverse (proj4 sourceProjection ''EPSG:4326'')) rings of
        Inl e \<Rightarrow> Inl e
      | Inr convertedRings \<Rightarrow> Inr (Polygon m convertedRings))"
| "convertGeometry proj4 (MultiPoint m ps) sourceProjection =
     (case traverse (proj4 sourceProjection ''EPSG:4326'') ps of
        Inl e \<Rightarrow> Inl e
      | Inr convertedPoints \<Rightarrow> Inr (MultiPoint m convertedPoints))"
| "convertGeometry proj4 (MultiLineString m ls) sourceProjection =
     (case traverse (traverse (proj4 sourceProjection ''EPSG:4326'')) ls of
        Inl e \<Rightarrow> Inl e
      | Inr convertedLines \<Rightarrow> Inr (MultiLineString m convertedLines))"
| "convertGeometry proj4 (MultiPolygon m polygons) sourceProjection =
     (case traverse (traverse (traverse (proj4 sourceProjection ''EPSG:4326''))) polygons of
        Inl e \<Rightarrow> Inl e
      | Inr convertedPolygons \<Rightarrow> Inr (MultiPolygon m convertedPolygons))"
| "convertGeometry proj4 (GeometryCollection m geometries) sourceProjection =
     (case traverse (\<lambda>geom. convertGeometry proj4 geom sourceProjection) geometries of
        Inl e \<Rightarrow> Inl e
      | Inr converted \<Rightarrow> Inr (GeometryCollection m converted))"
| "convertGeometry proj4 (OtherGeometry t m) sourceProjection = Inr (OtherGeometry t m)"

record ('m, 'f) Feature =
  geometry :: "'m Geometry"
  featureMembers :: 'f

record ('m, 'f, 'c) FeatureCollection =
  features :: "('m, 'f) Feature list"
  collectionMembers :: 'c

definition convertFeature ::
  "transform \<Rightarrow> string \<Rightarrow> ('m, 'f) Feature \<Rightarrow> error + ('m, 'f) Feature" where
  \<comment> \<open>the function mapped over the features\<close>
  "convertFeature proj4 sourceProjection feature =
     (if geometry feature = NoGeometry then Inr feature
      else
        (case convertGeometry proj4 (geometry feature) sourceProjection of
           Inl e \<Rightarrow> Inl e
         | Inr convertedGeometry \<Rightarrow> Inr (feature\<lparr>geometry := convertedGeometry\<rparr>)))"

definition convertGeoJsonToWGS84Generic ::
  "transform \<Rightarrow> ('m, 'f, 'c) FeatureCollection \<Rightarrow> string \<Rightarrow> error + ('m, 'f, 'c) FeatureCollection" where
  "convertGeoJsonToWGS84Generic proj4 geojson sourceProjection =
     (case traverse (convertFeature proj4 sourceProjection) (features geojson) of
        Inl e \<Rightarrow> Inl e
      | Inr converted \<Rightarrow> Inr (geojson\<lparr>features := converted\<rparr>))"

section \<open>The specification's reading of documents and geometries\<close>

text \<open>
  The definitions of this section follow the words of the specification, not the loops
  of the source: a document is a list of lines, a line whose trimmed text starts with a
  bracket is a section header, and every line belongs to the section of the last header
  at or before it. They are compared with the source's functions below.
\<close>

definition isEndMarker :: "string \<Rightarrow> bool" where
  "isEndMarker line = (trim line = ''[END]'')"

definition isSectionHeader :: "string \<Rightarrow> bool" where
  "isSectionHeader line = startsWith (trim line) ''[''"



definition isGeometrySection :: "string option \<Rightarrow> bool" where
  "isGeometrySection sec = (sec = Some ''[COORDINATES]'' \<or> sec = Some ''[VERTICES]'')"

definition sectionAfter :: "string option \<Rightarrow> string \<Rightarrow> string option" where
  \<comment> \<open>the section a line of the base document belongs to, given the section before it: an
      END marker opens no section\<close>
  "sectionAfter sec line =
     (if isSectionHeader line \<and> \<not> isEndMarker line then Some (trim line) else sec)"

fun sectionLabels :: "string option \<Rightarrow> string list \<Rightarrow> (string option \<times> string) list" where
  "sectionLabels sec [] = []"
| "sectionLabels sec (l # ls) = (sectionAfter sec l, l) # sectionLabels (sectionAfter sec l) ls"

definition isPreserved :: "string option \<times> string \<Rightarrow> bool" where
  \<comment> \<open>a labelled line of the base document that the update keeps: every header but the END
      marker, and every other line outside the COORDINATES and VERTICES sections\<close>
  "isPreserved labelled =
     (\<not> isEndMarker (snd labelled)
      \<and> (isSectionHeader (snd labelled) \<or> \<not> isGeometrySection (fst labelled)))"

definition preservedFrom :: "string option \<Rightarrow> string list \<Rightarrow> string list" where
  "preservedFrom sec ls = map snd (filter isPreserved (sectionLabels sec ls))"

definition preservedLines :: "string \<Rightarrow> string list" where
  "preservedLines inpContent = preservedFrom None (splitOn CHR ''\<newline>'' inpContent)"











text \<open>The positions of a geometry, and a geometry with a function applied to each of them.\<close>

fun positionsOf :: "'m Geometry \<Rightarrow> point list" where
  "positionsOf (Point m p) = [p]"
| "positionsOf (LineString m ps) = ps"
| "positionsOf (Polygon m rings) = concat rings"
| "positionsOf (MultiPoint m ps) = ps"
| "positionsOf (MultiLineString m ls) = concat ls"
| "positionsOf (MultiPolygon m polygons) = concat (concat polygons)"
| "positionsOf (GeometryCollection m geometries) = concat (map positionsOf geometries)"
| "positionsOf (OtherGeometry t m) = []"
| "positionsOf NoGeometry = []"

fun mapPositions :: "(point \<Rightarrow> point) \<Rightarrow> 'm Geometry \<Rightarrow> 'm Geometry" where
  "mapPositions f (Point m p) = Point m (f p)"
| "mapPositions f (LineString m ps) = LineString m (map f ps)"
| "mapPositions f (Polygon m rings) = Polygon m (map (map f) rings)"
| "mapPositions f (MultiPoint m ps) = MultiPoint m (map f ps)"
| "mapPositions f (MultiLineString m ls) = MultiLineString m (map (map f) ls)"
| "mapPositions f (MultiPolygon m polygons) = MultiPolygon m (map (map (map f)) polygons)"
| "mapPositions f (GeometryCollection m geometries) =
     GeometryCollection m (map (mapPositions f) geometries)"
| "mapPositions f (OtherGeometry t m) = OtherGeometry t m"
| "mapPositions f NoGeometry = NoGeometry"


text \<open>
  The text of the geometry sections: \<open>fixedText x d\<close> is the string \<open>x.toFixed(d)\<close> returns
  (empty where it throws), an entry line is an identifier and two such strings.
\<close>

definition fixedText :: "number \<Rightarrow> int \<Rightarrow> string" where
  "fixedText x d = (case toFixed x d of Inr s \<Rightarrow> s | Inl e \<Rightarrow> [])"

definition entryLine :: "int \<Rightarrow> string \<Rightarrow> point \<Rightarrow> string" where
  "entryLine d ident p = ident @ '' '' @ fixedText (fst p) d @ '' '' @ fixedText (snd p) d"

definition coordinatesSection :: "int \<Rightarrow> (string \<times> point) list \<Rightarrow> string list" where
  "coordinatesSection d entries =
     (if entries = [] then []
      else ''\<newline>[COORDINATES]'' # map (\<lambda>(ident, p). entryLine d ident p) entries)"

definition verticesSection :: "int \<Rightarrow> (string \<times> point list) list \<Rightarrow> string list" where
  "verticesSection d entries =
     (if entries = [] then []
      else ''\<newline>[VERTICES]'' # concat (map (\<lambda>(linkId, points). map (entryLine d linkId) points) entries))"


definition precisionOf :: "int option \<Rightarrow> int" where
  "precisionOf decimalPrecision = (case decimalPrecision of None \<Rightarrow> 4 | Some given \<Rightarrow> given)"





section \<open>Sample data\<close>

text \<open>
  Two stand-ins for the transform of the projection library (one exchanges the two
  coordinates, one throws on every point), a small network, a base document and a
  geometry; the instances below are computed on them.
\<close>

definition swapAxes :: transform where
  "swapAxes source target p = Inr (snd p, fst p)"

definition rejectAll :: transform where
  "rejectAll source target p = Inl ProjectionError"


definition sampleBase :: string where
  "sampleBase =
     ''[OPTIONS]\<newline>Units LPS\<newline>[JUNCTIONS]\<newline>J1 0\<newline>[COORDINATES]\<newline>J1 9 9\<newline>[VERTICES]\<newline>P1 8 8\<newline>[END]''"

definition oneNodeNetwork :: NetworkData where
  "oneNodeNetwork =
     \<lparr>coordinates = [(''J1'', (Finite 1, Finite 2))], vertices = [], inp = [], name = []\<rparr>"



definition sampleGeometry :: "unit Geometry" where
  "sampleGeometry =
     GeometryCollection ()
       [Point () (Finite 1, Finite 2),
        Polygon () [[(Finite 3, Finite 4), (Finite 5, Finite 6)]],
        OtherGeometry ''Circle'' ()]"

section \<open>Auxiliary lemmas\<close>

subsection \<open>Splitting and joining\<close>






lemma joinWith_append:
  "xs \<noteq> [] \<Longrightarrow> ys \<noteq> [] \<Longrightarrow> joinWith sep (xs @ ys) = joinWith sep xs @ sep @ joinWith sep ys"
  by (induction sep xs rule: joinWith.induct) (auto simp: neq_Nil_conv)

subsection \<open>Digits, \<open>toFixed\<close> and \<open>parseFloat\<close>\<close>



















lemma dropWhile_hd: "s \<noteq> [] \<Longrightarrow> \<not> P (hd s) \<Longrightarrow> dropWhile P s = s"
  by (cases s) auto






subsection \<open>The loop of the update\<close>

lemma updateLine_step:
  "updateLine (sec, sec = Some ''[COORDINATES]'', sec = Some ''[VERTICES]'', acc) l =
     (sectionAfter sec l,
      sectionAfter sec l = Some ''[COORDINATES]'',
      sectionAfter sec l = Some ''[VERTICES]'',
      acc @ (if isPreserved (sectionAfter sec l, l) then [l] else []))"
  by (auto simp: updateLine_def sectionAfter_def isPreserved_def isEndMarker_def
      isSectionHeader_def isGeometrySection_def Let_def)

lemma updateLine_foldl:
  "foldl updateLine (sec, sec = Some ''[COORDINATES]'', sec = Some ''[VERTICES]'', acc) ls =
     (foldl sectionAfter sec ls,
      foldl sectionAfter sec ls = Some ''[COORDINATES]'',
      foldl sectionAfter sec ls = Some ''[VERTICES]'',
      acc @ preservedFrom sec ls)"
proof (induction ls arbitrary: sec acc)
  case Nil
  then show ?case by (simp add: preservedFrom_def)
next
  case (Cons l ls)
  show ?case
    by (simp only: foldl_Cons updateLine_step Cons.IH)
       (simp add: preservedFrom_def)
qed

lemma updatedLines_preserved:
  "snd (snd (snd (foldl updateLine (None, False, False, []) (splitOn CHR ''\<newline>'' inpContent))))
     = preservedLines inpContent"
  using updateLine_foldl [of None "[]" "splitOn CHR ''\<newline>'' inpContent"]
  by (simp add: preservedLines_def)

lemma subseq_preservedFrom: "subseq (preservedFrom sec ls) ls"
proof -
  have "map snd (sectionLabels sec ls) = ls"
    by (induction ls arbitrary: sec) auto
  moreover have "subseq (map snd (filter isPreserved (sectionLabels sec ls))) (map snd (sectionLabels sec ls))"
    by (simp add: subseq_map)
  ultimately show ?thesis by (simp add: preservedFrom_def)
qed


subsection \<open>The loop of the extractor\<close>







subsection \<open>Traversals, geometry and the round trip\<close>





lemma traverse_Inr_I:
  "list_all2 (\<lambda>x y. f x = Inr y) xs ys \<Longrightarrow> traverse f xs = Inr ys"
  by (induction xs ys rule: list_all2_induct) auto


lemma traverse_map: "(\<forall>x \<in> set xs. f x = Inr (g x)) \<Longrightarrow> traverse f xs = Inr (map g xs)"
  by (induction xs) auto

lemma traverse_fails:
  "x \<in> set xs \<Longrightarrow> isl (f x) \<Longrightarrow> isl (traverse f xs)"
  by (induction xs) (auto split: sum.splits)


lemma convertGeometry_maps:
  "(\<forall>p \<in> set (positionsOf g). proj4 src ''EPSG:4326'' p = Inr (f p))
     \<Longrightarrow> convertGeometry proj4 g src = Inr (mapPositions f g)"
proof (induction proj4 g src rule: convertGeometry.induct)
  case (3 proj4 m ps src)
  then have "traverse (proj4 src ''EPSG:4326'') ps = Inr (map f ps)"
    by (intro traverse_map) simp
  then show ?case by simp
next
  case (5 proj4 m ps src)
  then have "traverse (proj4 src ''EPSG:4326'') ps = Inr (map f ps)"
    by (intro traverse_map) simp
  then show ?case by simp
next
  case (4 proj4 m rings src)
  then have "traverse (traverse (proj4 src ''EPSG:4326'')) rings = Inr (map (map f) rings)"
    by (intro traverse_map ballI) auto
  then show ?case by simp
next
  case (6 proj4 m ls src)
  then have "traverse (traverse (proj4 src ''EPSG:4326'')) ls = Inr (map (map f) ls)"
    by (intro traverse_map ballI) auto
  then show ?case by simp
next
  case (7 proj4 m polygons src)
  then have "traverse (traverse (traverse (proj4 src ''EPSG:4326''))) polygons
      = Inr (map (map (map f)) polygons)"
    by (intro traverse_map ballI) auto
  then show ?case by simp
next
  case (8 proj4 m geometries src)
  then have "traverse (\<lambda>geom. convertGeometry proj4 geom src) geometries
      = Inr (map (mapPositions f) geometries)"
    by (intro traverse_map ballI) auto
  then show ?case by simp
qed simp_all

lemma convertGeometry_fails:
  "p \<in> set (positionsOf g) \<Longrightarrow> isl (proj4 src ''EPSG:4326'' p)
     \<Longrightarrow> isl (convertGeometry proj4 g src)"
proof (induction proj4 g src rule: convertGeometry.induct)
  case (2 proj4 m q src)
  then show ?case by (auto split: sum.splits)
next
  case (3 proj4 m ps src)
  then have "isl (traverse (proj4 src ''EPSG:4326'') ps)"
    using traverse_fails [of p ps "proj4 src ''EPSG:4326''"] by simp
  then show ?case by (auto split: sum.splits)
next
  case (4 proj4 m rings src)
  then obtain ring where r: "ring \<in> set rings" "p \<in> set ring" by auto
  from traverse_fails [OF r(2), of "proj4 src ''EPSG:4326''"] 4(2)
  have "isl (traverse (proj4 src ''EPSG:4326'') ring)" by simp
  from traverse_fails [OF r(1), of "traverse (proj4 src ''EPSG:4326'')", OF this]
  show ?case by (auto split: sum.splits)
next
  case (5 proj4 m ps src)
  then have "isl (traverse (proj4 src ''EPSG:4326'') ps)"
    using traverse_fails [of p ps "proj4 src ''EPSG:4326''"] by simp
  then show ?case by (auto split: sum.splits)
next
  case (6 proj4 m ls src)
  then obtain line where r: "line \<in> set ls" "p \<in> set line" by auto
  from traverse_fails [OF r(2), of "proj4 src ''EPSG:4326''"] 6(2)
  have "isl (traverse (proj4 src ''EPSG:4326'') line)" by simp
  from traverse_fails [OF r(1), of "traverse (proj4 src ''EPSG:4326'')", OF this]
  show ?case by (auto split: sum.splits)
next
  case (7 proj4 m polygons src)
  then obtain polygon ring where
    r: "polygon \<in> set polygons" "ring \<in> set polygon" "p \<in> set ring"
    by auto
  from traverse_fails [OF r(3), of "proj4 src ''EPSG:4326''"] 7(2)
  have "isl (traverse (proj4 src ''EPSG:4326'') ring)" by simp
  from traverse_fails [OF r(2), of "traverse (proj4 src ''EPSG:4326'')", OF this]
  have "isl (traverse (traverse (proj4 src ''EPSG:4326'')) polygon)" .
  from traverse_fails [OF r(1), of "traverse (traverse (proj4 src ''EPSG:4326''))", OF this]
  show ?case by (auto split: sum.splits)
next
  case (8 proj4 m geometries src)
  then obtain geom where r: "geom \<in> set geometries" "p \<in> set (positionsOf geom)" by auto
  from 8(1) [OF r] 8(3) have "isl (convertGeometry proj4 geom src)" by simp
  from traverse_fails [OF r(1), of "\<lambda>geom. convertGeometry proj4 geom src", OF this]
  show ?case by (auto split: sum.splits)
qed simp_all

lemma toFixed_in_range: "0 \<le> d \<Longrightarrow> d \<le> 100 \<Longrightarrow> toFixed x d = Inr (fixedText x d)"
  by (cases x) (simp_all add: fixedText_def toFixed_def)


lemma formatEntry_in_range:
  "0 \<le> d \<Longrightarrow> d \<le> 100 \<Longrightarrow> formatEntry d ident p = Inr (entryLine d ident p)"
  by (simp add: formatEntry_def entryLine_def toFixed_in_range)


lemma coordinateLines_in_range:
  assumes "0 \<le> d" "d \<le> 100"
  shows "coordinateLines d entries = Inr (coordinatesSection d entries)"
proof -
  have "traverse (\<lambda>(ident, p). formatEntry d ident p) entries
      = Inr (map (\<lambda>(ident, p). entryLine d ident p) entries)"
    by (intro traverse_map) (auto simp: formatEntry_in_range [OF assms])
  then show ?thesis by (simp add: coordinateLines_def coordinatesSection_def)
qed

lemma vertexLines_in_range:
  assumes "0 \<le> d" "d \<le> 100"
  shows "vertexLines d entries = Inr (verticesSection d entries)"
proof -
  have "traverse (formatEntry d linkId) points = Inr (map (entryLine d linkId) points)" for linkId points
    by (intro traverse_map) (auto simp: formatEntry_in_range [OF assms])
  then have "traverse (\<lambda>(linkId, points). traverse (formatEntry d linkId) points) entries
      = Inr (map (\<lambda>(linkId, points). map (entryLine d linkId) points) entries)"
    by (intro traverse_map) auto
  then show ?thesis by (simp add: vertexLines_def verticesSection_def)
qed

lemma update_in_range:
  assumes "0 \<le> d" "d \<le> 100"
  shows "updateINPWithReprojectedData inpContent networkData (Some d) =
     Inr (joinWith ''\<newline>''
           (preservedLines inpContent @ coordinatesSection d (coordinates networkData)
            @ verticesSection d (vertices networkData) @ [''\<newline>[END]'']))"
  by (simp add: updateINPWithReprojectedData_def Let_def updatedLines_preserved
      coordinateLines_in_range [OF assms] vertexLines_in_range [OF assms])





























lemma update_precision:
  "updateINPWithReprojectedData inpContent networkData decimalPrecision
     = updateINPWithReprojectedData inpContent networkData (Some (precisionOf decimalPrecision))"
  by (simp add: updateINPWithReprojectedData_def precisionOf_def)

subsection \<open>Evaluating digits\<close>

lemma digitChar_simps:
  "digitChar 0 = CHR ''0''" "digitChar (Suc 0) = CHR ''1''" "digitChar 2 = CHR ''2''"
  "digitChar 3 = CHR ''3''" "digitChar 4 = CHR ''4''" "digitChar 5 = CHR ''5''"
  "digitChar 6 = CHR ''6''" "digitChar 7 = CHR ''7''" "digitChar 8 = CHR ''8''"
  "digitChar 9 = CHR ''9''"
  by code_simp+

lemma digitsOf_numeral:
  "digitsOf (numeral k) =
     (if (numeral k :: nat) < 10 then [digitChar (numeral k)]
      else digitsOf (numeral k div 10) @ [digitChar (numeral k mod 10)])"
  by (rule digitsOf.simps)

lemma digitsOf_small: "digitsOf 0 = ''0''" "digitsOf (Suc 0) = ''1''"
  by (simp_all add: digitsOf.simps [of 0] digitsOf.simps [of "Suc 0"] digitChar_simps)

lemmas digitsOf_eval = digitsOf_numeral digitsOf_small digitChar_simps

lemma fixedText_two: "fixedText (Finite 2) 4 = ''2.0000''"
proof -
  have "\<lfloor>(40001::rat) / 2\<rfloor> = 20000" by (rule floor_unique) simp_all
  then show ?thesis
    by (simp add: fixedText_def toFixed_def fixedString_def Let_def digitsOf_eval)
qed

lemma fixedText_one: "fixedText (Finite 1) 4 = ''1.0000''"
proof -
  have "\<lfloor>(20001::rat) / 2\<rfloor> = 10000" by (rule floor_unique) simp_all
  then show ?thesis
    by (simp add: fixedText_def toFixed_def fixedString_def Let_def digitsOf_eval)
qed


section \<open>Properties of the model-builder constants\<close>




text \<open>
  C4: the default pipe roughness is 0.01 under Darcy-Weisbach and 100 under
  Hazen-Williams; for every formula it is the entry of the table
  \<open>PIPE_ROUGHNESS_DEFAULT\<close> (0.013 under Chezy-Manning) and 100 for a formula the table
  does not have.
\<close>

theorem default_pipe_roughness:
  "getDefaultPipeRoughness ''Darcy-Weisbach'' = Finite (1 / 100)
   \<and> getDefaultPipeRoughness ''Hazen-Williams'' = Finite 100
   \<and> getDefaultPipeRoughness formula =
       (if formula = ''Darcy-Weisbach'' then Finite (1 / 100)
        else if formula = ''Chezy-Manning'' then Finite (13 / 1000)
        else Finite 100)"
  by (simp add: getDefaultPipeRoughness_def PIPE_ROUGHNESS_DEFAULT_def)

text \<open>
  C5: the geometry-validity check accepts a geometry type for an element kind exactly
  when a schema with that key lists the type: pipes accept only LineString and
  MultiLineString; nodes, valves, pumps, tanks and reservoirs accept only Point and
  MultiPoint; a kind with no schema accepts nothing. The keys of the schemas are distinct.
\<close>

theorem geometry_validity:
  "isValidGeometryForElement geometryType elementType =
     (\<exists>el \<in> set EPANET_ELEMENTS. key el = elementType \<and> geometryType \<in> set (geometryTypes el))
   \<and> isValidGeometryForElement geometryType elementType =
     ((elementType = ''pipes'' \<and> geometryType \<in> set [''LineString'', ''MultiLineString''])
      \<or> (elementType \<in> set [''nodes'', ''valves'', ''pumps'', ''tanks'', ''reservoirs'']
          \<and> geometryType \<in> set [''Point'', ''MultiPoint'']))
   \<and> distinct (map key EPANET_ELEMENTS)"
  by (auto simp: isValidGeometryForElement_def EPANET_ELEMENTS_def)


section \<open>Properties of the network utilities\<close>

text \<open>
  C2: for a precision from 0 to 100 (4 when not supplied) \<open>updateINPWithReprojectedData\<close>
  returns a document, and a document it returns is the preserved lines of the base
  (every section header, END markers apart, and every line outside the COORDINATES and
  VERTICES sections, verbatim and in their order), followed by sections that depend on
  the network data and the precision only, and by the END marker.
\<close>

theorem update_preserves_other_sections:
  "(0 \<le> precisionOf decimalPrecision \<and> precisionOf decimalPrecision \<le> 100
      \<longrightarrow> (\<exists>result. updateINPWithReprojectedData inpContent networkData decimalPrecision = Inr result))
   \<and> (updateINPWithReprojectedData inpContent networkData decimalPrecision = Inr out
      \<longrightarrow> (\<exists>sections.
             out = joinWith ''\<newline>'' (preservedLines inpContent @ sections @ [''\<newline>[END]''])
             \<and> (\<forall>base. updateINPWithReprojectedData base networkData decimalPrecision
                    = Inr (joinWith ''\<newline>'' (preservedLines base @ sections @ [''\<newline>[END]''])))))
   \<and> subseq (preservedLines inpContent) (splitOn CHR ''\<newline>'' inpContent)"
proof -
  define d where "d = precisionOf decimalPrecision"
  have returns: "\<exists>result. updateINPWithReprojectedData inpContent networkData decimalPrecision = Inr result"
    if "0 \<le> d" "d \<le> 100"
    using update_in_range [OF that, of inpContent networkData]
    by (subst update_precision) (simp add: d_def)
  have frame: "\<exists>sections.
             out = joinWith ''\<newline>'' (preservedLines inpContent @ sections @ [''\<newline>[END]''])
             \<and> (\<forall>base. updateINPWithReprojectedData base networkData decimalPrecision
                    = Inr (joinWith ''\<newline>'' (preservedLines base @ sections @ [''\<newline>[END]''])))"
    if r: "updateINPWithReprojectedData inpContent networkData decimalPrecision = Inr out"
  proof -
    from r obtain cs vs where
      cs: "coordinateLines d (coordinates networkData) = Inr cs" and
      vs: "vertexLines d (vertices networkData) = Inr vs"
      by (auto simp: updateINPWithReprojectedData_def Let_def d_def precisionOf_def split: sum.splits)
    have all: "updateINPWithReprojectedData base networkData decimalPrecision
        = Inr (joinWith ''\<newline>'' (preservedLines base @ (cs @ vs) @ [''\<newline>[END]'']))" for base
      using cs vs
      by (simp add: updateINPWithReprojectedData_def Let_def updatedLines_preserved d_def precisionOf_def)
    from all [of inpContent] r
    have "out = joinWith ''\<newline>'' (preservedLines inpContent @ (cs @ vs) @ [''\<newline>[END]''])"
      by simp
    with all show ?thesis by blast
  qed
  have "subseq (preservedLines inpContent) (splitOn CHR ''\<newline>'' inpContent)"
    by (simp add: preservedLines_def subseq_preservedFrom)
  with returns frame show ?thesis by (simp add: d_def)
qed

text \<open>
  An instance of C2: the base has an OPTIONS and a JUNCTIONS section, a COORDINATES and a
  VERTICES section with one old line each, and an END marker; the old lines and the
  marker are dropped, the rest is kept, and the new COORDINATES section and the END marker
  follow.
\<close>

theorem update_preserves_other_sections_witness:
  "updateINPWithReprojectedData sampleBase oneNodeNetwork None
     = Inr ''[OPTIONS]\<newline>Units LPS\<newline>[JUNCTIONS]\<newline>J1 0\<newline>[COORDINATES]\<newline>[VERTICES]\<newline>\<newline>[COORDINATES]\<newline>J1 1.0000 2.0000\<newline>\<newline>[END]''
   \<and> preservedLines sampleBase
       = [''[OPTIONS]'', ''Units LPS'', ''[JUNCTIONS]'', ''J1 0'', ''[COORDINATES]'', ''[VERTICES]'']
   \<and> (\<exists>sections.
         ''[OPTIONS]\<newline>Units LPS\<newline>[JUNCTIONS]\<newline>J1 0\<newline>[COORDINATES]\<newline>[VERTICES]\<newline>\<newline>[COORDINATES]\<newline>J1 1.0000 2.0000\<newline>\<newline>[END]''
           = joinWith ''\<newline>'' (preservedLines sampleBase @ sections @ [''\<newline>[END]'']))"
proof -
  have p: "preservedLines sampleBase
       = [''[OPTIONS]'', ''Units LPS'', ''[JUNCTIONS]'', ''J1 0'', ''[COORDINATES]'', ''[VERTICES]'']"
    by (simp add: preservedLines_def preservedFrom_def sampleBase_def isPreserved_def sectionAfter_def
        isSectionHeader_def isEndMarker_def isGeometrySection_def trim_def isWhiteSpace_def)
  have t: "entryLine 4 ''J1'' (Finite 1, Finite 2) = ''J1 1.0000 2.0000''"
    by (simp add: entryLine_def fixedText_one fixedText_two)
  have u: "updateINPWithReprojectedData sampleBase oneNodeNetwork None
     = Inr ''[OPTIONS]\<newline>Units LPS\<newline>[JUNCTIONS]\<newline>J1 0\<newline>[COORDINATES]\<newline>[VERTICES]\<newline>\<newline>[COORDINATES]\<newline>J1 1.0000 2.0000\<newline>\<newline>[END]''"
    using update_in_range [of 4 sampleBase oneNodeNetwork]
    by (subst update_precision)
       (simp add: precisionOf_def p oneNodeNetwork_def coordinatesSection_def verticesSection_def t)
  let ?out = "''[OPTIONS]\<newline>Units LPS\<newline>[JUNCTIONS]\<newline>J1 0\<newline>[COORDINATES]\<newline>[VERTICES]\<newline>\<newline>[COORDINATES]\<newline>J1 1.0000 2.0000\<newline>\<newline>[END]''"
  from update_preserves_other_sections [of None sampleBase oneNodeNetwork ?out] u
  have "\<exists>sections. ?out = joinWith ''\<newline>'' (preservedLines sampleBase @ sections @ [''\<newline>[END]''])"
    by blast
  with u p show ?thesis by (intro conjI)
qed



text \<open>
  C6: where the transform succeeds on every position of a geometry, \<open>convertGeometry\<close>
  returns the geometry with the transform (from the given source projection to
  EPSG:4326) applied to every position at its nesting depth, member geometries of a
  GeometryCollection included; where the transform throws on some position, the
  conversion throws; a geometry of any other type is returned unchanged; and
  \<open>convertGeoJsonToWGS84Generic\<close> does this to the geometry of every feature.
\<close>

theorem convertGeometry_transforms_every_position:
  "((\<forall>p \<in> set (positionsOf g). proj4 sourceProjection ''EPSG:4326'' p = Inr (f p))
      \<longrightarrow> convertGeometry proj4 g sourceProjection = Inr (mapPositions f g))
   \<and> ((\<exists>p \<in> set (positionsOf g). isl (proj4 sourceProjection ''EPSG:4326'' p))
      \<longrightarrow> isl (convertGeometry proj4 g sourceProjection))
   \<and> convertGeometry proj4 (OtherGeometry t m) sourceProjection = Inr (OtherGeometry t m)
   \<and> ((\<forall>feature \<in> set (features geojson). \<forall>p \<in> set (positionsOf (geometry feature)).
          proj4 sourceProjection ''EPSG:4326'' p = Inr (f p))
      \<longrightarrow> convertGeoJsonToWGS84Generic proj4 geojson sourceProjection =
            Inr (geojson\<lparr>features :=
                   map (\<lambda>feature. feature\<lparr>geometry := mapPositions f (geometry feature)\<rparr>)
                     (features geojson)\<rparr>))"
proof -
  have coll: "convertGeoJsonToWGS84Generic proj4 geojson sourceProjection =
            Inr (geojson\<lparr>features :=
                   map (\<lambda>feature. feature\<lparr>geometry := mapPositions f (geometry feature)\<rparr>)
                     (features geojson)\<rparr>)"
    if h: "\<forall>feature \<in> set (features geojson). \<forall>p \<in> set (positionsOf (geometry feature)).
          proj4 sourceProjection ''EPSG:4326'' p = Inr (f p)"
  proof -
    have "convertFeature proj4 sourceProjection feature
        = Inr (feature\<lparr>geometry := mapPositions f (geometry feature)\<rparr>)"
      if "feature \<in> set (features geojson)" for feature
      using convertGeometry_maps [of "geometry feature" proj4 sourceProjection f] h that
      by (auto simp: convertFeature_def)
    then have "traverse (convertFeature proj4 sourceProjection) (features geojson)
        = Inr (map (\<lambda>feature. feature\<lparr>geometry := mapPositions f (geometry feature)\<rparr>) (features geojson))"
      by (intro traverse_map) auto
    then show ?thesis by (simp add: convertGeoJsonToWGS84Generic_def)
  qed
  show ?thesis
    using convertGeometry_maps [of g proj4 sourceProjection f]
      convertGeometry_fails [of _ g proj4 sourceProjection] coll
    by auto
qed

text \<open>
  Instances of C6: a collection of a point, a polygon and an object of another type,
  under the transform that exchanges the coordinates and under the one that throws; and
  a feature collection with a feature that has no geometry.
\<close>

theorem convertGeometry_transforms_every_position_witness:
  "convertGeometry swapAxes sampleGeometry ''EPSG:3857''
     = Inr (GeometryCollection ()
             [Point () (Finite 2, Finite 1),
              Polygon () [[(Finite 4, Finite 3), (Finite 6, Finite 5)]],
              OtherGeometry ''Circle'' ()])
   \<and> isl (convertGeometry rejectAll sampleGeometry ''EPSG:3857'')
   \<and> convertGeoJsonToWGS84Generic swapAxes
        \<lparr>features = [\<lparr>geometry = Point () (Finite 1, Finite 2), featureMembers = ''pump''\<rparr>,
                     \<lparr>geometry = NoGeometry, featureMembers = ''none''\<rparr>],
         collectionMembers = ''layer''\<rparr> ''EPSG:3857''
      = Inr \<lparr>features = [\<lparr>geometry = Point () (Finite 2, Finite 1), featureMembers = ''pump''\<rparr>,
                         \<lparr>geometry = NoGeometry, featureMembers = ''none''\<rparr>],
             collectionMembers = ''layer''\<rparr>"
  using convertGeometry_transforms_every_position
          [of sampleGeometry swapAxes "''EPSG:3857''" "\<lambda>p. (snd p, fst p)" _ _
              "\<lparr>features = [\<lparr>geometry = Point () (Finite 1, Finite 2), featureMembers = ''pump''\<rparr>,
                     \<lparr>geometry = NoGeometry, featureMembers = ''none''\<rparr>],
                collectionMembers = ''layer''\<rparr>"]
        convertGeometry_transforms_every_position [of sampleGeometry rejectAll "''EPSG:3857''"]
  by (simp add: swapAxes_def rejectAll_def sampleGeometry_def)









end
